theory Spec2Isabelle
  imports Complex_Main "HOL-Library.Word" "HOL-Library.Sublist"
begin

section \<open>JavaScript strings\<close>

text \<open>
  A JavaScript string is a sequence of UTF-16 code units; \<open>.length\<close> counts code units.
  The string literals of \<^verbatim>\<open>App.tsx\<close> are ASCII, and \<open>js\<close> turns such a literal into its
  code units.
\<close>

type_synonym jschar = "16 word"
type_synonym jsstring = "jschar list"

definition js :: "string \<Rightarrow> jsstring" where
  "js s = map (\<lambda>c. of_nat (of_char c)) s"

text \<open>
  \<open>String.prototype.trim\<close> removes the leading and trailing code units that are
  WhiteSpace or LineTerminator in ECMAScript: TAB, LF, VT, FF, CR, SP, NBSP, the Unicode
  space separators, LS, PS and the byte order mark.
\<close>

definition WhiteSpace :: "jschar \<Rightarrow> bool" where
  "WhiteSpace c \<longleftrightarrow>
     c = 0x0009 \<or> c = 0x000A \<or> c = 0x000B \<or> c = 0x000C \<or> c = 0x000D \<or> c = 0x0020 \<or>
     c = 0x00A0 \<or> c = 0x1680 \<or> (0x2000 \<le> c \<and> c \<le> 0x200A) \<or> c = 0x2028 \<or>
     c = 0x2029 \<or> c = 0x202F \<or> c = 0x205F \<or> c = 0x3000 \<or> c = 0xFEFF"

definition trim :: "jsstring \<Rightarrow> jsstring" where
  "trim s = rev (dropWhile WhiteSpace (rev (dropWhile WhiteSpace s)))"

text \<open>\<open>Array.prototype.join\<close> on an array of strings.\<close>

fun join :: "jsstring \<Rightarrow> jsstring list \<Rightarrow> jsstring" where
  "join sep [] = []"
| "join sep [x] = x"
| "join sep (x # y # ys) = x @ sep @ join sep (y # ys)"

text \<open>\<open>String.prototype.split\<close> with a one-unit separator; it never returns an empty array.\<close>

fun split :: "jschar \<Rightarrow> jsstring \<Rightarrow> jsstring list" where
  "split sep [] = [[]]"
| "split sep (c # cs) =
     (if c = sep then [] # split sep cs
      else (case split sep cs of l # ls \<Rightarrow> (c # l) # ls | [] \<Rightarrow> [[c]]))"

section \<open>Data model\<close>

text \<open>
  The interfaces of \<^verbatim>\<open>App.tsx\<close>. A TypeScript \<open>number\<close> is only stored and handed on by
  the handlers modelled here, so its representation is the type parameter \<open>'n\<close>.
\<close>

record 'n Source =
  title :: jsstring
  content :: jsstring
  relevance_score :: 'n

record 'n ResearchReport =
  summary :: jsstring
  key_findings :: "jsstring list"
  confidence_score :: 'n
  sources :: "'n Source list"

record 'n ResearchResult =
  success :: bool
  research_report :: "'n ResearchReport"
  execution_time :: 'n
  sources_found :: 'n
  reasoning_steps :: 'n

record 'n SuggestionItem =
  suggested_query :: jsstring
  refinement_type :: jsstring
  rationale :: jsstring
  confidence :: 'n
  expected_improvement :: 'n

record 'n Suggestion =
  success :: bool
  suggestions :: "'n SuggestionItem list"

text \<open>A browser \<open>File\<close>: its name and its bytes.\<close>

record File =
  name :: jsstring
  bytes :: "8 word list"

datatype format = Pdf | Markdown | Json

fun format_name :: "format \<Rightarrow> jsstring" where
  "format_name Pdf = js ''pdf''"
| "format_name Markdown = js ''markdown''"
| "format_name Json = js ''json''"

subsection \<open>Requests, responses and other effects\<close>

text \<open>
  The three \<open>axios.post\<close> calls. \<open>Research q m\<close> posts \<open>{query: q, max_sources: m}\<close> to
  \<^verbatim>\<open>/research\<close>, \<open>Suggest q\<close> posts \<open>{query: q}\<close> to \<^verbatim>\<open>/suggest\<close>, \<open>Ingest fs\<close> posts the files
  as one multipart form to \<^verbatim>\<open>/ingest\<close>.
\<close>

datatype request = Research jsstring nat | Suggest jsstring | Ingest "File list"

text \<open>
  The promise of \<open>axios.post\<close> resolves with the response body on a 2xx status and rejects
  on a network error or any other status.
\<close>

datatype 'a outcome = Resolved 'a | Rejected

datatype 'n response =
  ResearchReply "'n ResearchResult outcome"
| SuggestReply "'n Suggestion outcome"
| IngestReply "bool outcome"

text \<open>
  The part handed to \<open>new Blob\<close>. \<open>JSON.stringify\<close> belongs to the JavaScript runtime, not to
  this program: the model records the call with its value and its indentation.
\<close>

datatype 'n blob = Text jsstring | JSON_stringify "'n ResearchResult" nat

datatype 'n io =
  Post request
| Reply request "'n response"
| Alert jsstring
| ConsoleError jsstring
| SetTimeout nat
| Download jsstring "'n blob"

subsection \<open>The component's state\<close>

text \<open>The \<open>useState\<close> cells of \<open>App\<close>.\<close>

record 'n app_state =
  query :: jsstring
  isLoading :: bool
  results :: "'n ResearchResult option"
  suggestions :: "'n SuggestionItem list"
  showSuggestions :: bool
  uploadedFiles :: "File list"
  isUploading :: bool
  uploadSuccess :: bool

definition init_state :: "'n app_state" where
  "init_state = \<lparr>query = [], isLoading = False, results = None, suggestions = [],
     showSuggestions = False, uploadedFiles = [], isUploading = False,
     uploadSuccess = False\<rparr>"

section \<open>The handlers\<close>

text \<open>
  A handler is a function from the state to the new state and the effects it issues, in
  order. An \<open>async\<close> handler with one \<open>await\<close> is two such functions: the part that runs
  up to the \<open>await\<close>, and the part (\<open>_settled\<close>) that runs when the promise settles, on the
  state of that later moment.
\<close>

definition handleSearch :: "'n app_state \<Rightarrow> jsstring \<Rightarrow> 'n app_state \<times> 'n io list" where
  "handleSearch s searchQuery =
     (if trim searchQuery = [] then (s, [])
      else (s\<lparr>isLoading := True, results := None, suggestions := [],
               showSuggestions := False\<rparr>,
            [Post (Research searchQuery 10)]))"

definition handleSearch_settled ::
  "'n app_state \<Rightarrow> 'n ResearchResult outcome \<Rightarrow> 'n app_state \<times> 'n io list" where
  "handleSearch_settled s r =
     (case r of
        Resolved d \<Rightarrow> (s\<lparr>results := Some d, isLoading := False\<rparr>, [])
      | Rejected \<Rightarrow>
          (s\<lparr>isLoading := False\<rparr>,
           [ConsoleError (js ''Research error:''),
            Alert (js ''Error conducting research. Make sure the backend is running on port 8000.'')]))"

definition handleKeyPress ::
  "'n app_state \<Rightarrow> jsstring \<Rightarrow> bool \<Rightarrow> 'n app_state \<times> 'n io list" where
  "handleKeyPress s key shiftKey =
     (if key = js ''Enter'' \<and> \<not> shiftKey then handleSearch s (query s) else (s, []))"

definition getSuggestions :: "'n app_state \<Rightarrow> jsstring \<Rightarrow> 'n app_state \<times> 'n io list" where
  "getSuggestions s searchQuery =
     (if length searchQuery < 3 then (s, []) else (s, [Post (Suggest searchQuery)]))"

definition getSuggestions_settled ::
  "'n app_state \<Rightarrow> 'n Suggestion outcome \<Rightarrow> 'n app_state \<times> 'n io list" where
  "getSuggestions_settled s r =
     (case r of
        Resolved d \<Rightarrow>
          (if Suggestion.success d
           then (s\<lparr>suggestions := Suggestion.suggestions d, showSuggestions := True\<rparr>, [])
           else (s, []))
      | Rejected \<Rightarrow> (s, [ConsoleError (js ''Suggestion error:'')]))"

definition handleQueryChange :: "'n app_state \<Rightarrow> jsstring \<Rightarrow> 'n app_state \<times> 'n io list" where
  "handleQueryChange s v = getSuggestions (s\<lparr>query := v\<rparr>) v"

definition handleSuggestionClick ::
  "'n app_state \<Rightarrow> 'n SuggestionItem \<Rightarrow> 'n app_state \<times> 'n io list" where
  "handleSuggestionClick s suggestion =
     handleSearch (s\<lparr>query := suggested_query suggestion, showSuggestions := False\<rparr>)
       (suggested_query suggestion)"

definition handleFileUpload ::
  "'n app_state \<Rightarrow> File list option \<Rightarrow> 'n app_state \<times> 'n io list" where
  "handleFileUpload s files =
     (case files of
        None \<Rightarrow> (s, [])
      | Some fs \<Rightarrow>
          (if length fs = 0 then (s, [])
           else (s\<lparr>isUploading := True, uploadSuccess := False\<rparr>, [Post (Ingest fs)])))"

definition handleFileUpload_settled ::
  "'n app_state \<Rightarrow> File list \<Rightarrow> bool outcome \<Rightarrow> 'n app_state \<times> 'n io list" where
  "handleFileUpload_settled s fs r =
     (case r of
        Resolved ok \<Rightarrow>
          (if ok
           then (s\<lparr>uploadedFiles := uploadedFiles s @ fs, uploadSuccess := True,
                    isUploading := False\<rparr>,
                 [SetTimeout 3000])
           else (s\<lparr>isUploading := False\<rparr>, []))
      | Rejected \<Rightarrow>
          (s\<lparr>isUploading := False\<rparr>,
           [ConsoleError (js ''Upload error:''),
            Alert (js ''Error uploading files. Make sure the backend is running.'')]))"

text \<open>The callback of the three-second timer.\<close>

definition uploadSuccess_timeout :: "'n app_state \<Rightarrow> 'n app_state" where
  "uploadSuccess_timeout s = s\<lparr>uploadSuccess := False\<rparr>"

text \<open>The local \<open>content\<close> of \<open>exportReport\<close>, then the handler, which leaves the state alone.\<close>

definition exportReport_content :: "'n ResearchResult \<Rightarrow> format \<Rightarrow> 'n blob" where
  "exportReport_content r fmt =
     (if fmt = Json then JSON_stringify r 2
      else Text (js ''# Research Report\<newline>\<newline>'' @ summary (research_report r) @
                 js ''\<newline>\<newline>## Key Findings\<newline>'' @
                 join (js ''\<newline>'')
                   (map (\<lambda>f. js ''- '' @ f) (key_findings (research_report r)))))"

definition exportReport :: "'n app_state \<Rightarrow> format \<Rightarrow> 'n io list" where
  "exportReport s fmt =
     (case results s of
        None \<Rightarrow> []
      | Some r \<Rightarrow>
          [Download (js ''research-report.'' @ format_name fmt) (exportReport_content r fmt)])"

section \<open>What is rendered\<close>

datatype panel = LoadingIndicator | ResultsPanel | WelcomePanel

text \<open>The three conditional blocks at the end of \<open>main\<close>, in the order of the JSX.\<close>

definition main_panels :: "'n app_state \<Rightarrow> panel list" where
  "main_panels s =
     (if isLoading s then [LoadingIndicator] else []) @
     (if results s \<noteq> None then [ResultsPanel] else []) @
     (if results s = None \<and> \<not> isLoading s then [WelcomePanel] else [])"

definition overlay_rendered :: "'n app_state \<Rightarrow> bool" where
  "overlay_rendered s \<longleftrightarrow> showSuggestions s \<and> length (suggestions s) > 0"

section \<open>The event loop\<close>

text \<open>
  The world is the component's state, the requests in flight (oldest first), the number
  of timers not yet fired, and the history of effects, newest first. State is observed
  between the tasks of the event loop: the part of a handler between two \<open>await\<close>s runs
  as one step.
\<close>

record 'n world =
  st :: "'n app_state"
  pending :: "request list"
  timers :: nat
  history :: "'n io list"

definition init_world :: "'n world" where
  "init_world = \<lparr>st = init_state, pending = [], timers = 0, history = []\<rparr>"

fun posted :: "'n io list \<Rightarrow> request list" where
  "posted [] = []"
| "posted (Post q # es) = q # posted es"
| "posted (_ # es) = posted es"

fun scheduled :: "'n io list \<Rightarrow> nat" where
  "scheduled [] = 0"
| "scheduled (SetTimeout _ # es) = Suc (scheduled es)"
| "scheduled (_ # es) = scheduled es"

definition emit :: "'n world \<Rightarrow> 'n app_state \<times> 'n io list \<Rightarrow> 'n world" where
  "emit w r = w\<lparr>st := fst r, pending := pending w @ posted (snd r),
                timers := timers w + scheduled (snd r),
                history := rev (snd r) @ history w\<rparr>"

datatype 'n event =
  Change jsstring
| KeyPress jsstring bool
| ClickSearch
| ClickSuggestion nat
| SelectFiles "File list option"
| ClickExport format
| Settle nat "'n response"
| Timeout

fun answers :: "request \<Rightarrow> 'n response \<Rightarrow> bool" where
  "answers (Research _ _) (ResearchReply _) = True"
| "answers (Suggest _) (SuggestReply _) = True"
| "answers (Ingest _) (IngestReply _) = True"
| "answers _ _ = False"

text \<open>
  What the page lets happen: the textarea is disabled while loading, the search button
  while loading or on a blank query; a suggestion row exists only in the rendered
  overlay, the export buttons only in the results panel; files can be selected at any
  time; a request settles only while it is in flight, with a response of its own
  endpoint; the timer fires only once it is set.
\<close>

fun enabled :: "'n world \<Rightarrow> 'n event \<Rightarrow> bool" where
  "enabled w (Change v) = (\<not> isLoading (st w))"
| "enabled w (KeyPress k sh) = (\<not> isLoading (st w))"
| "enabled w ClickSearch = (\<not> (isLoading (st w) \<or> trim (query (st w)) = []))"
| "enabled w (ClickSuggestion i) = (overlay_rendered (st w) \<and> i < length (suggestions (st w)))"
| "enabled w (SelectFiles fs) = True"
| "enabled w (ClickExport f) = (results (st w) \<noteq> None)"
| "enabled w (Settle i r) = (i < length (pending w) \<and> answers (pending w ! i) r)"
| "enabled w Timeout = (0 < timers w)"

fun resume :: "'n app_state \<Rightarrow> request \<Rightarrow> 'n response \<Rightarrow> 'n app_state \<times> 'n io list" where
  "resume s (Research q m) (ResearchReply r) = handleSearch_settled s r"
| "resume s (Suggest q) (SuggestReply r) = getSuggestions_settled s r"
| "resume s (Ingest fs) (IngestReply r) = handleFileUpload_settled s fs r"
| "resume s _ _ = (s, [])"

fun fire :: "'n world \<Rightarrow> 'n event \<Rightarrow> 'n world" where
  "fire w (Change v) = emit w (handleQueryChange (st w) v)"
| "fire w (KeyPress k sh) = emit w (handleKeyPress (st w) k sh)"
| "fire w ClickSearch = emit w (handleSearch (st w) (query (st w)))"
| "fire w (ClickSuggestion i) = emit w (handleSuggestionClick (st w) (suggestions (st w) ! i))"
| "fire w (SelectFiles fs) = emit w (handleFileUpload (st w) fs)"
| "fire w (ClickExport f) = emit w (st w, exportReport (st w) f)"
| "fire w (Settle i r) =
     emit (w\<lparr>pending := take i (pending w) @ drop (Suc i) (pending w),
              history := Reply (pending w ! i) r # history w\<rparr>)
       (resume (st w) (pending w ! i) r)"
| "fire w Timeout = w\<lparr>st := uploadSuccess_timeout (st w), timers := timers w - 1\<rparr>"

definition step :: "'n world \<Rightarrow> 'n event \<Rightarrow> 'n world option" where
  "step w e = (if enabled w e then Some (fire w e) else None)"

fun run :: "'n world \<Rightarrow> 'n event list \<Rightarrow> 'n world option" where
  "run w [] = Some w"
| "run w (e # es) = (case step w e of None \<Rightarrow> None | Some w' \<Rightarrow> run w' es)"

section \<open>Reading the history\<close>

text \<open>
  Two readings of the history, newest effect first. \<open>last_fetch_shows\<close> says that the
  most recent suggestion response resolved with \<open>success = true\<close> and a non-empty list and
  that no research request has been posted since. \<open>shown_list\<close> gives the list of the
  most recent suggestion response with \<open>success = true\<close> received since the last research
  request was posted, if there is one.
\<close>

fun last_fetch_shows :: "'n io list \<Rightarrow> bool" where
  "last_fetch_shows [] = False"
| "last_fetch_shows (Reply (Suggest q) (SuggestReply (Resolved d)) # h) =
     (Suggestion.success d \<and> Suggestion.suggestions d \<noteq> [])"
| "last_fetch_shows (Reply (Suggest q) (SuggestReply Rejected) # h) = False"
| "last_fetch_shows (Post (Research q m) # h) = False"
| "last_fetch_shows (_ # h) = last_fetch_shows h"

fun shown_list :: "'n io list \<Rightarrow> 'n SuggestionItem list option" where
  "shown_list [] = None"
| "shown_list (Reply (Suggest q) (SuggestReply (Resolved d)) # h) =
     (if Suggestion.success d then Some (Suggestion.suggestions d) else shown_list h)"
| "shown_list (Post (Research q m) # h) = None"
| "shown_list (_ # h) = shown_list h"

definition suggestion_inv :: "'n world \<Rightarrow> bool" where
  "suggestion_inv w =
     (case shown_list (history w) of
        None \<Rightarrow> suggestions (st w) = [] \<and> \<not> showSuggestions (st w)
      | Some l \<Rightarrow> suggestions (st w) = l)"

section \<open>Sample values\<close>

text \<open>The example scenario of the specification, used to instantiate the theorems below.\<close>

definition sample_result :: "real ResearchResult" where
  "sample_result =
     \<lparr>ResearchResult.success = True,
      research_report =
        \<lparr>summary = js ''Caching lowers latency.'',
         key_findings = [js ''p99 drops'', js ''hit rate matters''],
         confidence_score = 0.9,
         sources = [\<lparr>title = js ''Paper'', content = js ''Text'', relevance_score = 0.5\<rparr>]\<rparr>,
      execution_time = 1.5, sources_found = 1, reasoning_steps = 2\<rparr>"

definition sample_item :: "real SuggestionItem" where
  "sample_item =
     \<lparr>suggested_query = js ''impact of caching on p99 latency'',
      refinement_type = js ''specificity'', rationale = js ''narrows metric'',
      confidence = 0.82, expected_improvement = 0.3\<rparr>"

definition blank_item :: "real SuggestionItem" where
  "blank_item =
     \<lparr>suggested_query = js '''', refinement_type = js ''specificity'',
      rationale = js ''none'', confidence = 0.1, expected_improvement = 0\<rparr>"

definition sample_file :: File where
  "sample_file = \<lparr>name = js ''notes.txt'', bytes = [104, 105]\<rparr>"

definition multiline_result :: "real ResearchResult" where
  "multiline_result =
     \<lparr>ResearchResult.success = True,
      research_report =
        \<lparr>summary = js ''S'', key_findings = [js ''one\<newline>two''],
         confidence_score = 0.9, sources = []\<rparr>,
      execution_time = 1.5, sources_found = 0, reasoning_steps = 2\<rparr>"

definition uploading :: "real world" where
  "uploading = fire init_world (SelectFiles (Some [sample_file]))"

definition suggesting :: "real world" where
  "suggesting =
     fire (fire init_world (Change (js ''abc'')))
       (Settle 0 (SuggestReply (Resolved \<lparr>Suggestion.success = True,
                                            Suggestion.suggestions = [sample_item]\<rparr>)))"

definition searching :: "real world" where
  "searching = fire (fire init_world (Change (js ''abc''))) ClickSearch"

section \<open>Properties\<close>

lemma trim_empty_iff: "trim s = [] \<longleftrightarrow> (\<forall>c \<in> set s. WhiteSpace c)"
proof
  assume "trim s = []"
  then have all: "\<forall>c \<in> set (dropWhile WhiteSpace s). WhiteSpace c"
    by (simp add: trim_def dropWhile_eq_Nil_conv)
  have "dropWhile WhiteSpace s = []"
  proof (rule ccontr)
    assume ne: "dropWhile WhiteSpace s \<noteq> []"
    then have "\<not> WhiteSpace (hd (dropWhile WhiteSpace s))"
      by (rule hd_dropWhile)
    moreover have "hd (dropWhile WhiteSpace s) \<in> set (dropWhile WhiteSpace s)"
      using ne by simp
    ultimately show False using all by blast
  qed
  then show "\<forall>c \<in> set s. WhiteSpace c"
    by (simp add: dropWhile_eq_Nil_conv)
next
  assume "\<forall>c \<in> set s. WhiteSpace c"
  then show "trim s = []"
    by (auto simp: trim_def dropWhile_eq_Nil_conv dest: set_dropWhileD)
qed

lemmas evaluation = step_def emit_def handleSearch_def handleSearch_settled_def
  handleKeyPress_def getSuggestions_def getSuggestions_settled_def handleQueryChange_def
  handleSuggestionClick_def handleFileUpload_def handleFileUpload_settled_def
  uploadSuccess_timeout_def exportReport_def init_world_def init_state_def
  overlay_rendered_def trim_def WhiteSpace_def js_def

lemma emit_nothing: "emit w (st w, []) = w"
  by (simp add: emit_def)

lemma run_invariant:
  assumes "run w es = Some w'" and "P w"
    and "\<And>v e. P v \<Longrightarrow> enabled v e \<Longrightarrow> P (fire v e)"
  shows "P w'"
  using assms(1,2)
proof (induction es arbitrary: w)
  case Nil
  then show ?case by simp
next
  case (Cons e es)
  from Cons.prems(1) have en: "enabled w e" and rest: "run (fire w e) es = Some w'"
    by (auto simp: step_def split: if_splits)
  from assms(3) [OF Cons.prems(2) en] rest show ?case
    by (rule Cons.IH [rotated])
qed

lemma st_emit: "st (emit w r) = fst r"
  by (simp add: emit_def)

lemma fire_loading_results:
  assumes "isLoading (st w) \<longrightarrow> results (st w) = None"
  shows "isLoading (st (fire w e)) \<longrightarrow> results (st (fire w e)) = None"
proof (cases e)
  case (Settle i r)
  show ?thesis
  proof (cases "(st w, pending w ! i, r)" rule: resume.cases)
    case (1 s q m x)
    then show ?thesis using assms Settle
      by (cases x) (simp_all add: st_emit handleSearch_settled_def)
  next
    case (2 s q x)
    then show ?thesis using assms Settle
      by (cases x) (simp_all add: st_emit getSuggestions_settled_def)
  next
    case (3 s fs x)
    then show ?thesis using assms Settle
      by (cases x) (simp_all add: st_emit handleFileUpload_settled_def)
  qed (use assms Settle in \<open>simp_all add: st_emit\<close>)
qed (use assms in \<open>auto simp: st_emit handleQueryChange_def getSuggestions_def handleKeyPress_def
      handleSearch_def handleSuggestionClick_def handleFileUpload_def uploadSuccess_timeout_def
      split: option.splits\<close>)

lemma split_not_Nil: "split sep s \<noteq> []"
  by (induction s) (auto split: list.splits)

lemma split_no_sep: "sep \<notin> set x \<Longrightarrow> split sep x = [x]"
  by (induction x) auto

lemma split_append_sep: "sep \<notin> set x \<Longrightarrow> split sep (x @ sep # rest) = x # split sep rest"
  by (induction x) (auto split: list.splits simp: split_not_Nil)

lemma split_join:
  "xs \<noteq> [] \<Longrightarrow> \<forall>x \<in> set xs. sep \<notin> set x \<Longrightarrow> split sep (join [sep] xs) = xs"
proof (induction "[sep]" xs rule: join.induct)
  case 1
  then show ?case by simp
next
  case (2 x)
  then show ?case by (simp add: split_no_sep)
next
  case (3 x y ys)
  then show ?case by (simp add: split_append_sep)
qed

lemma js_newline: "js ''\<newline>'' = [10]"
  by (simp add: js_def)

lemma history_emit: "history (emit w r) = rev (snd r) @ history w"
  by (simp add: emit_def)

lemma fire_suggestion_inv:
  assumes "suggestion_inv w" and "enabled w e"
  shows "suggestion_inv (fire w e)"
proof (cases e)
  case (Settle i r)
  show ?thesis
  proof (cases "(st w, pending w ! i, r)" rule: resume.cases)
    case (1 s q m x)
    then show ?thesis using assms Settle
      by (cases x) (auto simp: suggestion_inv_def st_emit history_emit handleSearch_settled_def
          split: option.splits)
  next
    case (2 s q x)
    then show ?thesis using assms Settle
      by (cases x) (auto simp add: suggestion_inv_def st_emit history_emit getSuggestions_settled_def
          split: option.splits)
  next
    case (3 s fs x)
    then show ?thesis using assms Settle
      by (cases x) (auto simp: suggestion_inv_def st_emit history_emit handleFileUpload_settled_def
          split: option.splits)
  qed (use assms Settle in \<open>simp_all\<close>)
next
  case (ClickExport f)
  then show ?thesis using assms
    by (auto simp: suggestion_inv_def st_emit history_emit exportReport_def split: option.splits)
qed (use assms in \<open>auto simp: suggestion_inv_def st_emit history_emit handleQueryChange_def
      getSuggestions_def handleKeyPress_def handleSearch_def handleSuggestionClick_def
      handleFileUpload_def uploadSuccess_timeout_def split: option.splits\<close>)

lemma reachable_suggestion_inv:
  assumes "run init_world es = Some w"
  shows "suggestion_inv w"
  using assms
proof (rule run_invariant)
  show "suggestion_inv init_world"
    by (simp add: suggestion_inv_def init_world_def init_state_def)
qed (rule fire_suggestion_inv)

subsection \<open>Blank submissions\<close>

text \<open>
  Claim C1. For every state, \<open>handleSearch\<close> called with a query whose trimmed value is
  empty is a no-op: it returns the state as it was and issues no effect, so no research
  request is posted and \<open>isLoading\<close>, \<open>results\<close>, \<open>suggestions\<close>, \<open>showSuggestions\<close> and
  every other cell keep their values; the world (requests in flight, timers, history) is
  unchanged as well.
\<close>

theorem handleSearch_blank_noop:
  "trim searchQuery = [] \<Longrightarrow>
     handleSearch s searchQuery = (s, []) \<and> emit w (handleSearch (st w) searchQuery) = w"
  by (simp add: handleSearch_def emit_nothing)

theorem handleSearch_blank_noop_witness:
  "trim (js '' \<newline> '') = [] \<and>
   handleSearch (init_state :: real app_state) (js '' \<newline> '') = (init_state, []) \<and>
   emit (init_world :: real world) (handleSearch (st init_world) (js '' \<newline> '')) = init_world"
proof -
  have h: "trim (js '' \<newline> '') = []"
    by (simp add: trim_def WhiteSpace_def js_def)
  from handleSearch_blank_noop [OF h, of "init_state :: real app_state" "init_world :: real world"] h
  show ?thesis
    by simp
qed

subsection \<open>Short queries\<close>

text \<open>
  Claim C6. For every string of fewer than three code units, the keystroke handler
  \<open>handleQueryChange\<close> stores the string as the query and issues no effect: no suggestion
  request joins the requests in flight, and \<open>suggestions\<close> and \<open>showSuggestions\<close> are as
  they were.
\<close>

theorem handleQueryChange_short:
  "length v < 3 \<Longrightarrow>
     handleQueryChange s v = (s\<lparr>query := v\<rparr>, []) \<and>
     suggestions (fst (handleQueryChange s v)) = suggestions s \<and>
     showSuggestions (fst (handleQueryChange s v)) = showSuggestions s \<and>
     pending (fire w (Change v)) = pending w"
  by (simp add: handleQueryChange_def getSuggestions_def emit_def)

theorem handleQueryChange_short_witness:
  "length (js ''ab'') < 3 \<and>
   handleQueryChange (init_state :: real app_state) (js ''ab'') =
     (init_state\<lparr>query := js ''ab''\<rparr>, []) \<and>
   pending (fire (init_world :: real world) (Change (js ''ab''))) = []"
proof -
  have h: "length (js ''ab'') < 3"
    by (simp add: js_def)
  have "pending (init_world :: real world) = []"
    by (simp add: init_world_def)
  with handleQueryChange_short [OF h, of "init_state :: real app_state" "init_world :: real world"] h
  show ?thesis
    by simp
qed

subsection \<open>The main panel\<close>

text \<open>
  Claim C3. In every reachable state exactly one of the loading indicator, the results
  panel and the welcome panel is rendered: the loading indicator if \<open>isLoading\<close>,
  otherwise the results panel if \<open>results\<close> is not null, otherwise the welcome panel.
\<close>

theorem main_panels_exactly_one:
  assumes "run init_world es = Some w"
  shows "main_panels (st w) =
    [if isLoading (st w) then LoadingIndicator
     else if results (st w) \<noteq> None then ResultsPanel else WelcomePanel]"
proof -
  have "isLoading (st w) \<longrightarrow> results (st w) = None"
    using assms
  proof (rule run_invariant)
    show "isLoading (st init_world) \<longrightarrow> results (st init_world) = None"
      by (simp add: init_world_def init_state_def)
  qed (rule fire_loading_results)
  then show ?thesis
    by (auto simp: main_panels_def)
qed

theorem main_panels_exactly_one_witness:
  "run init_world [Change (js ''abc''), ClickSearch] = Some searching \<and>
   main_panels (st searching) = [LoadingIndicator] \<and>
   run init_world [Change (js ''abc''), ClickSearch,
      Settle 1 (ResearchReply (Resolved sample_result))] =
     Some (fire searching (Settle 1 (ResearchReply (Resolved sample_result)))) \<and>
   main_panels (st (fire searching (Settle 1 (ResearchReply (Resolved sample_result))))) =
     [ResultsPanel]"
proof -
  have h1: "run init_world [Change (js ''abc''), ClickSearch] = Some searching"
    by (simp add: searching_def evaluation)
  have h2: "run init_world [Change (js ''abc''), ClickSearch,
      Settle 1 (ResearchReply (Resolved sample_result))] =
     Some (fire searching (Settle 1 (ResearchReply (Resolved sample_result))))"
    by (simp add: searching_def evaluation)
  have l: "isLoading (st searching)"
    by (simp add: searching_def evaluation)
  have r: "\<not> isLoading (st (fire searching (Settle 1 (ResearchReply (Resolved sample_result)))))"
    "results (st (fire searching (Settle 1 (ResearchReply (Resolved sample_result))))) \<noteq> None"
    by (simp_all add: searching_def evaluation)
  from main_panels_exactly_one [OF h1] l
  have "main_panels (st searching) = [LoadingIndicator]"
    by simp
  moreover from main_panels_exactly_one [OF h2] r
  have "main_panels (st (fire searching (Settle 1 (ResearchReply (Resolved sample_result))))) =
     [ResultsPanel]"
    by simp
  ultimately show ?thesis
    using h1 h2 by blast
qed

subsection \<open>Export\<close>

text \<open>
  Claim C8 as stated fails on the line count. The template of \<open>exportReport\<close> writes each
  finding after \<open>- \<close> as it is and joins the items with newlines; nothing escapes a
  newline inside a finding. A single finding of two lines is exported as the line
  \<open>- one\<close> followed by the line \<open>two\<close>: two lines for one entry, the second without the
  dash.
\<close>

theorem exportReport_line_per_entry_counterexample:
  "key_findings (research_report multiline_result) = [js ''one\<newline>two''] \<and>
   exportReport_content multiline_result Markdown =
     Text (js ''# Research Report\<newline>\<newline>S\<newline>\<newline>## Key Findings\<newline>- one\<newline>two'') \<and>
   split 10 (js ''- one\<newline>two'') = [js ''- one'', js ''two''] \<and>
   length (split 10 (js ''- one\<newline>two'')) = 2 \<and>
   length (key_findings (research_report multiline_result)) = 1"
  by (simp add: multiline_result_def exportReport_content_def js_def)

text \<open>
  Claim C8, as amended. For every result and each of the formats \<open>markdown\<close> and \<open>pdf\<close>,
  the exported text starts with \<open># Research Report\<close>, contains the summary verbatim, and
  ends with the findings as \<open>- \<close> items joined by newlines in their original order; when
  there is a finding and no finding contains a newline, splitting that part at the
  newlines gives exactly one \<open>- finding\<close> line per entry. The text does not depend on the
  sources, so no source title or content is exported; the text for \<open>pdf\<close> is the text
  for \<open>markdown\<close>; and with no result the handler issues no effect at all.
\<close>

theorem exportReport_markdown_pdf:
  assumes "fmt = Markdown \<or> fmt = Pdf"
  shows "\<exists>t body.
      exportReport_content r fmt = Text t \<and>
      exportReport (s\<lparr>results := Some r\<rparr>) fmt =
        [Download (js ''research-report.'' @ format_name fmt) (Text t)] \<and>
      prefix (js ''# Research Report'') t \<and>
      sublist (summary (research_report r)) t \<and>
      t = js ''# Research Report\<newline>\<newline>'' @ summary (research_report r) @
          js ''\<newline>\<newline>## Key Findings\<newline>'' @ body \<and>
      body = join (js ''\<newline>'') (map (\<lambda>f. js ''- '' @ f) (key_findings (research_report r))) \<and>
      (key_findings (research_report r) \<noteq> [] \<and>
       (\<forall>f \<in> set (key_findings (research_report r)). 10 \<notin> set f) \<longrightarrow>
         split 10 body = map (\<lambda>f. js ''- '' @ f) (key_findings (research_report r))) \<and>
      exportReport_content (r\<lparr>research_report := (research_report r)\<lparr>sources := ss\<rparr>\<rparr>) fmt =
        exportReport_content r fmt \<and>
      exportReport_content r Pdf = exportReport_content r Markdown \<and>
      exportReport (s\<lparr>results := None\<rparr>) fmt = []"
proof -
  let ?kf = "key_findings (research_report r)"
  let ?bullets = "map (\<lambda>f. js ''- '' @ f) ?kf"
  let ?body = "join (js ''\<newline>'') ?bullets"
  let ?t = "js ''# Research Report\<newline>\<newline>'' @ summary (research_report r) @
            js ''\<newline>\<newline>## Key Findings\<newline>'' @ ?body"
  have c: "exportReport_content r fmt = Text ?t"
    using assms by (auto simp: exportReport_content_def)
  have d: "exportReport (s\<lparr>results := Some r\<rparr>) fmt =
        [Download (js ''research-report.'' @ format_name fmt) (Text ?t)]"
    using c by (simp add: exportReport_def)
  have p: "prefix (js ''# Research Report'') ?t"
    by (simp add: js_def)
  have sub: "sublist (summary (research_report r)) ?t"
    unfolding sublist_def by blast
  have l: "?kf \<noteq> [] \<and> (\<forall>f \<in> set ?kf. 10 \<notin> set f) \<longrightarrow> split 10 ?body = ?bullets"
  proof
    assume a: "?kf \<noteq> [] \<and> (\<forall>f \<in> set ?kf. 10 \<notin> set f)"
    then have "\<forall>x \<in> set ?bullets. 10 \<notin> set x"
      by (auto simp: js_def)
    moreover from a have "?bullets \<noteq> []" by simp
    ultimately show "split 10 ?body = ?bullets"
      unfolding js_newline by (rule split_join [rotated])
  qed
  have i: "exportReport_content (r\<lparr>research_report := (research_report r)\<lparr>sources := ss\<rparr>\<rparr>) fmt =
        exportReport_content r fmt"
    using assms by (auto simp: exportReport_content_def)
  have m: "exportReport_content r Pdf = exportReport_content r Markdown"
    by (simp add: exportReport_content_def)
  have n: "exportReport (s\<lparr>results := None\<rparr>) fmt = []"
    by (simp add: exportReport_def)
  from c d p sub l i m n show ?thesis by blast
qed

theorem exportReport_markdown_pdf_witness:
  "(Pdf = Markdown \<or> Pdf = Pdf) \<and>
   key_findings (research_report sample_result) \<noteq> [] \<and>
   list_all (\<lambda>f. 10 \<notin> set f) (key_findings (research_report sample_result)) \<and>
   exportReport_content sample_result Pdf =
     Text (js ''# Research Report\<newline>\<newline>Caching lowers latency.\<newline>\<newline>## Key Findings\<newline>- p99 drops\<newline>- hit rate matters'') \<and>
   split 10 (js ''- p99 drops\<newline>- hit rate matters'') = [js ''- p99 drops'', js ''- hit rate matters'']"
proof -
  have h: "Pdf = Markdown \<or> Pdf = Pdf" by simp
  from exportReport_markdown_pdf [OF h, of sample_result "init_state :: real app_state" "[]"]
  show ?thesis
    by (simp add: sample_result_def js_def)
qed

text \<open>
  For \<open>json\<close> the handler hands the whole result to \<open>JSON.stringify\<close> with indentation 2.
  What the runtime's serialiser and parser make of the numbers in it lies outside this
  model.
\<close>

lemma exportReport_json:
  "exportReport (s\<lparr>results := Some r\<rparr>) Json =
     [Download (js ''research-report.json'') (JSON_stringify r 2)]"
  by (simp add: exportReport_def exportReport_content_def js_def)

subsection \<open>The suggestion overlay\<close>

text \<open>
  Claim C2 as stated fails on the flag. \<open>getSuggestions\<close> sets \<open>showSuggestions\<close> on
  every response with \<open>success = true\<close>, whatever the list holds, and a fetch that fails
  leaves the flag alone; the JSX guards the overlay with the length of the list instead. So the flag is set after a
  successful response with an empty list, and the overlay stays rendered after a later
  fetch has failed.
\<close>

theorem showSuggestions_last_fetch_counterexample:
  "(case run (init_world :: real world)
      [Change (js ''abc''),
       Settle 0 (SuggestReply (Resolved \<lparr>Suggestion.success = True,
                                           Suggestion.suggestions = []\<rparr>))]
    of Some w \<Rightarrow> showSuggestions (st w) \<and> \<not> last_fetch_shows (history w)
     | None \<Rightarrow> False) \<and>
   (case run init_world
      [Change (js ''abc''), Change (js ''abcd''),
       Settle 0 (SuggestReply (Resolved \<lparr>Suggestion.success = True,
                                           Suggestion.suggestions = [sample_item]\<rparr>)),
       Settle 0 (SuggestReply Rejected)]
    of Some w \<Rightarrow> showSuggestions (st w) \<and> overlay_rendered (st w) \<and>
                  \<not> last_fetch_shows (history w)
     | None \<Rightarrow> False)"
  by (simp add: evaluation)

text \<open>
  Claim C2, as amended. In every reachable state, \<open>showSuggestions\<close> is true only if a
  suggestion response with \<open>success = true\<close> has been received since the most recent
  research request was posted, and \<open>suggestions\<close> is then the list of the most recent
  such response; the overlay is rendered only if that list is also non-empty.
\<close>

theorem showSuggestions_only_after_success:
  assumes "run init_world es = Some w"
  shows "(showSuggestions (st w) \<longrightarrow> shown_list (history w) = Some (suggestions (st w))) \<and>
         (overlay_rendered (st w) \<longrightarrow> (\<exists>l. shown_list (history w) = Some l \<and> l \<noteq> []))"
  using reachable_suggestion_inv [OF assms]
  by (auto simp: suggestion_inv_def overlay_rendered_def split: option.splits)

theorem showSuggestions_only_after_success_witness:
  "run init_world
     [Change (js ''abc''),
      Settle 0 (SuggestReply (Resolved \<lparr>Suggestion.success = True,
                                          Suggestion.suggestions = [sample_item]\<rparr>))] =
     Some suggesting \<and>
   showSuggestions (st suggesting) \<and> overlay_rendered (st suggesting) \<and>
   shown_list (history suggesting) = Some (suggestions (st suggesting)) \<and>
   suggestions (st suggesting) = [sample_item]"
proof -
  have h: "run init_world
     [Change (js ''abc''),
      Settle 0 (SuggestReply (Resolved \<lparr>Suggestion.success = True,
                                          Suggestion.suggestions = [sample_item]\<rparr>))] =
     Some suggesting"
    by (simp add: suggesting_def evaluation)
  have s: "showSuggestions (st suggesting)" "overlay_rendered (st suggesting)"
    "suggestions (st suggesting) = [sample_item]"
    by (simp_all add: suggesting_def evaluation)
  from showSuggestions_only_after_success [OF h] s h show ?thesis
    by blast
qed

subsection \<open>A research request that succeeds\<close>

text \<open>
  Claim C4 as stated fails when a suggestion response arrives in between. The part of
  \<open>handleSearch\<close> after the \<open>await\<close> writes \<open>results\<close> and \<open>isLoading\<close> only.
  A suggestion request posted by an earlier keystroke can resolve while the research
  request is in flight, and its list and the flag are still there when the research
  request completes.
\<close>

theorem research_success_counterexample:
  "(case run init_world
      [Change (js ''abc''), ClickSearch,
       Settle 0 (SuggestReply (Resolved \<lparr>Suggestion.success = True,
                                           Suggestion.suggestions = [sample_item]\<rparr>)),
       Settle 0 (ResearchReply (Resolved sample_result))]
    of Some w \<Rightarrow> results (st w) = Some sample_result \<and> suggestions (st w) = [sample_item] \<and>
                  showSuggestions (st w) \<and> overlay_rendered (st w)
     | None \<Rightarrow> False)"
  by (simp add: evaluation)

text \<open>
  Claim C4, as amended. In every reachable state, when a research request resolves,
  \<open>results\<close> is exactly its response and \<open>isLoading\<close> is false; \<open>suggestions\<close> and
  \<open>showSuggestions\<close> are what they were before, which is the empty list and false provided
  no suggestion response with \<open>success = true\<close> has been received since the most recent
  research request was posted.
\<close>

theorem research_success_settled:
  assumes "run init_world es = Some w"
    and "step w (Settle i (ResearchReply (Resolved d))) = Some w'"
  shows "results (st w') = Some d \<and> \<not> isLoading (st w') \<and>
         suggestions (st w') = suggestions (st w) \<and>
         showSuggestions (st w') = showSuggestions (st w) \<and>
         (shown_list (history w) = None \<longrightarrow> suggestions (st w') = [] \<and> \<not> showSuggestions (st w'))"
proof -
  from assms(2) have en: "i < length (pending w)" "answers (pending w ! i) (ResearchReply (Resolved d))"
    and w': "w' = fire w (Settle i (ResearchReply (Resolved d)))"
    by (auto simp: step_def split: if_splits)
  from en(2) obtain q m where "pending w ! i = Research q m"
    by (cases "pending w ! i") simp_all
  then have "st w' = (st w)\<lparr>results := Some d, isLoading := False\<rparr>"
    using w' by (simp add: st_emit handleSearch_settled_def)
  then show ?thesis
    using reachable_suggestion_inv [OF assms(1)]
    by (auto simp: suggestion_inv_def split: option.splits)
qed

theorem research_success_settled_witness:
  "run init_world [Change (js ''abc''), ClickSearch] = Some searching \<and>
   step searching (Settle 1 (ResearchReply (Resolved sample_result))) =
     Some (fire searching (Settle 1 (ResearchReply (Resolved sample_result)))) \<and>
   shown_list (history searching) = None \<and>
   results (st (fire searching (Settle 1 (ResearchReply (Resolved sample_result))))) =
     Some sample_result \<and>
   \<not> isLoading (st (fire searching (Settle 1 (ResearchReply (Resolved sample_result))))) \<and>
   suggestions (st (fire searching (Settle 1 (ResearchReply (Resolved sample_result))))) = [] \<and>
   \<not> showSuggestions (st (fire searching (Settle 1 (ResearchReply (Resolved sample_result)))))"
proof -
  have h: "run init_world [Change (js ''abc''), ClickSearch] = Some searching"
    by (simp add: searching_def evaluation)
  have h': "step searching (Settle 1 (ResearchReply (Resolved sample_result))) =
     Some (fire searching (Settle 1 (ResearchReply (Resolved sample_result))))"
    by (simp add: searching_def evaluation)
  have n: "shown_list (history searching) = None"
    by (simp add: searching_def evaluation)
  from research_success_settled [OF h h'] n h h' show ?thesis
    by blast
qed

subsection \<open>A research request that fails\<close>

text \<open>
  Claim C5 as stated fails when two research requests overlap. The \<open>catch\<close> branch
  alerts and the \<open>finally\<close> branch clears \<open>isLoading\<close>; neither
  writes \<open>results\<close>. A click on a suggestion row that appeared while loading posts a second
  research request; when the first resolves and the second is then rejected, the first
  response is still stored.
\<close>

theorem research_failure_counterexample:
  "(case run init_world
      [Change (js ''abc''), ClickSearch,
       Settle 0 (SuggestReply (Resolved \<lparr>Suggestion.success = True,
                                           Suggestion.suggestions = [sample_item]\<rparr>)),
       ClickSuggestion 0,
       Settle 0 (ResearchReply (Resolved sample_result)),
       Settle 0 (ResearchReply Rejected)]
    of Some w \<Rightarrow> results (st w) = Some sample_result \<and> \<not> isLoading (st w) \<and>
                  hd (history w) =
                    Alert (js ''Error conducting research. Make sure the backend is running on port 8000.'')
     | None \<Rightarrow> False)"
  by (simp add: evaluation sample_item_def)

text \<open>
  Claim C5, as amended. In every reachable state, when a research request is rejected
  (network error or a status outside 2xx), the error is logged, the notice is raised,
  and afterwards \<open>isLoading\<close> is false and \<open>results\<close> is what it was before: null whenever
  \<open>isLoading\<close> was still true when the rejection arrived, that is, whenever no other
  research request has settled since the most recent submission.
\<close>

theorem research_failure_settled:
  assumes "run init_world es = Some w"
    and "step w (Settle i (ResearchReply Rejected)) = Some w'"
  shows "history w' =
           Alert (js ''Error conducting research. Make sure the backend is running on port 8000.'') #
           ConsoleError (js ''Research error:'') #
           Reply (pending w ! i) (ResearchReply Rejected) # history w \<and>
         \<not> isLoading (st w') \<and> results (st w') = results (st w) \<and>
         (isLoading (st w) \<longrightarrow> results (st w') = None)"
proof -
  from assms(2) have en: "answers (pending w ! i) (ResearchReply Rejected :: 'a response)"
    and w': "w' = fire w (Settle i (ResearchReply Rejected))"
    by (auto simp: step_def split: if_splits)
  from en obtain q m where q: "pending w ! i = Research q m"
    by (cases "pending w ! i") simp_all
  have inv: "isLoading (st w) \<longrightarrow> results (st w) = None"
    using assms(1)
  proof (rule run_invariant)
    show "isLoading (st init_world) \<longrightarrow> results (st init_world) = None"
      by (simp add: init_world_def init_state_def)
  qed (rule fire_loading_results)
  have "st w' = (st w)\<lparr>isLoading := False\<rparr>"
    using w' q by (simp add: st_emit handleSearch_settled_def)
  moreover have "history w' =
           Alert (js ''Error conducting research. Make sure the backend is running on port 8000.'') #
           ConsoleError (js ''Research error:'') #
           Reply (pending w ! i) (ResearchReply Rejected) # history w"
    using w' q by (simp add: history_emit handleSearch_settled_def)
  ultimately show ?thesis
    using inv by simp
qed

theorem research_failure_settled_witness:
  "run init_world [Change (js ''abc''), ClickSearch] = Some searching \<and>
   step searching (Settle 1 (ResearchReply Rejected)) =
     Some (fire searching (Settle 1 (ResearchReply Rejected))) \<and>
   isLoading (st searching) \<and>
   results (st (fire searching (Settle 1 (ResearchReply Rejected)))) = None \<and>
   \<not> isLoading (st (fire searching (Settle 1 (ResearchReply Rejected)))) \<and>
   history (fire searching (Settle 1 (ResearchReply Rejected))) =
     Alert (js ''Error conducting research. Make sure the backend is running on port 8000.'') #
     ConsoleError (js ''Research error:'') #
     Reply (pending searching ! 1) (ResearchReply Rejected) # history searching"
proof -
  have h: "run init_world [Change (js ''abc''), ClickSearch] = Some searching"
    by (simp add: searching_def evaluation)
  have h': "step searching (Settle 1 (ResearchReply Rejected)) =
     Some (fire searching (Settle 1 (ResearchReply Rejected)))"
    by (simp add: searching_def evaluation)
  have l: "isLoading (st searching)"
    by (simp add: searching_def evaluation)
  from research_failure_settled [OF h h'] l h h' show ?thesis
    by blast
qed

subsection \<open>A click on a suggestion\<close>

text \<open>
  Claim C9 as stated fails on a blank suggestion. \<open>handleSuggestionClick\<close> submits
  through \<open>handleSearch\<close>, whose guard returns on a blank
  string: a suggestion whose \<open>suggested_query\<close> is empty or whitespace sets the query and
  hides the overlay, and no research request is posted.
\<close>

theorem suggestion_click_blank_counterexample:
  "(case run init_world
      [Change (js ''abc''),
       Settle 0 (SuggestReply (Resolved \<lparr>Suggestion.success = True,
                                           Suggestion.suggestions = [blank_item]\<rparr>)),
       ClickSuggestion 0]
    of Some w \<Rightarrow> query (st w) = suggested_query blank_item \<and> \<not> showSuggestions (st w) \<and>
                  pending w = [] \<and> posted (history w) = [Suggest (js ''abc'')]
     | None \<Rightarrow> False)"
  by (simp add: evaluation blank_item_def)

text \<open>
  Claim C9, as amended. For every suggestion item, a click on it sets the query to its
  \<open>suggested_query\<close>, hides the overlay and posts no suggestion request; it posts one
  research request, for exactly that text with \<open>max_sources = 10\<close>, if the text is not
  blank after trimming, and no request at all if it is.
\<close>

theorem handleSuggestionClick_effect:
  "query (fst (handleSuggestionClick s sg)) = suggested_query sg \<and>
   \<not> showSuggestions (fst (handleSuggestionClick s sg)) \<and>
   snd (handleSuggestionClick s sg) =
     (if trim (suggested_query sg) = [] then []
      else [Post (Research (suggested_query sg) 10)]) \<and>
   (\<forall>q. Post (Suggest q) \<notin> set (snd (handleSuggestionClick s sg))) \<and>
   pending (fire w (ClickSuggestion i)) =
     pending w @
     (if trim (suggested_query (suggestions (st w) ! i)) = [] then []
      else [Research (suggested_query (suggestions (st w) ! i)) 10])"
  by (simp add: handleSuggestionClick_def handleSearch_def emit_def)

subsection \<open>Uploads\<close>

text \<open>
  Claim C10 as stated fails on an upload the backend reports as unsuccessful. The notice
  of \<open>handleFileUpload\<close> is raised in the \<open>catch\<close> branch only. A response
  that resolves with \<open>success = false\<close> appends nothing and clears \<open>isUploading\<close>, and
  nothing is shown.
\<close>

theorem upload_unsuccessful_counterexample:
  "(case run (init_world :: real world)
      [SelectFiles (Some [sample_file]), Settle 0 (IngestReply (Resolved False))]
    of Some w \<Rightarrow> history w = [Reply (Ingest [sample_file]) (IngestReply (Resolved False)),
                                Post (Ingest [sample_file])] \<and>
                  uploadedFiles (st w) = [] \<and> \<not> isUploading (st w)
     | None \<Rightarrow> False)"
  by (simp add: evaluation)

text \<open>
  Claim C10, as amended. A null or empty file list is a no-op. A non-empty list posts one
  ingest request carrying exactly that list, and whenever that request settles, at once
  or after other events, \<open>isUploading\<close> is false afterwards. When it resolves with
  \<open>success = true\<close>, the files of the call are appended to \<open>uploadedFiles\<close>: exactly as
  many entries as files, with their names in order. When it is rejected, nothing is
  appended and the notice is raised. When it resolves with \<open>success = false\<close>, nothing is
  appended and no notice is raised.
\<close>

theorem upload_end_to_end:
  assumes "fs \<noteq> []" and "i < length (pending v)" and "pending v ! i = Ingest fs"
  shows "fire w (SelectFiles None) = w \<and> fire w (SelectFiles (Some [])) = w \<and>
    pending (fire w (SelectFiles (Some fs))) = pending w @ [Ingest fs] \<and>
    uploadedFiles (st (fire w (SelectFiles (Some fs)))) = uploadedFiles (st w) \<and>
    run w [SelectFiles (Some fs), Settle (length (pending w)) (IngestReply r)] =
      Some (fire (fire w (SelectFiles (Some fs))) (Settle (length (pending w)) (IngestReply r))) \<and>
    uploadedFiles (st (fire (fire w (SelectFiles (Some fs)))
        (Settle (length (pending w)) (IngestReply (Resolved True))))) =
      uploadedFiles (st w) @ fs \<and>
    step v (Settle i (IngestReply r)) = Some (fire v (Settle i (IngestReply r))) \<and>
    \<not> isUploading (st (fire v (Settle i (IngestReply r)))) \<and>
    uploadedFiles (st (fire v (Settle i (IngestReply (Resolved True))))) =
      uploadedFiles (st v) @ fs \<and>
    map name (uploadedFiles (st (fire v (Settle i (IngestReply (Resolved True)))))) =
      map name (uploadedFiles (st v)) @ map name fs \<and>
    length (uploadedFiles (st (fire v (Settle i (IngestReply (Resolved True)))))) =
      length (uploadedFiles (st v)) + length fs \<and>
    history (fire v (Settle i (IngestReply (Resolved True)))) =
      SetTimeout 3000 # Reply (Ingest fs) (IngestReply (Resolved True)) # history v \<and>
    uploadedFiles (st (fire v (Settle i (IngestReply Rejected)))) = uploadedFiles (st v) \<and>
    history (fire v (Settle i (IngestReply Rejected))) =
      Alert (js ''Error uploading files. Make sure the backend is running.'') #
      ConsoleError (js ''Upload error:'') #
      Reply (Ingest fs) (IngestReply Rejected) # history v \<and>
    uploadedFiles (st (fire v (Settle i (IngestReply (Resolved False))))) = uploadedFiles (st v) \<and>
    history (fire v (Settle i (IngestReply (Resolved False)))) =
      Reply (Ingest fs) (IngestReply (Resolved False)) # history v"
proof -
  have noop: "fire w (SelectFiles None) = w \<and> fire w (SelectFiles (Some [])) = w"
    by (simp add: handleFileUpload_def emit_nothing)
  have call: "pending (fire w (SelectFiles (Some fs))) = pending w @ [Ingest fs] \<and>
      uploadedFiles (st (fire w (SelectFiles (Some fs)))) = uploadedFiles (st w)"
    using assms(1) by (simp add: handleFileUpload_def emit_def)
  have seq: "run w [SelectFiles (Some fs), Settle (length (pending w)) (IngestReply r)] =
      Some (fire (fire w (SelectFiles (Some fs))) (Settle (length (pending w)) (IngestReply r)))"
    using call by (simp add: step_def)
  have seq_ok: "uploadedFiles (st (fire (fire w (SelectFiles (Some fs)))
        (Settle (length (pending w)) (IngestReply (Resolved True))))) =
      uploadedFiles (st w) @ fs"
    using call by (simp add: st_emit handleFileUpload_settled_def)
  have en: "step v (Settle i (IngestReply r)) = Some (fire v (Settle i (IngestReply r)))"
    using assms(2,3) by (simp add: step_def)
  have up: "\<not> isUploading (st (fire v (Settle i (IngestReply r))))"
    using assms(3) by (cases r) (simp_all add: st_emit handleFileUpload_settled_def)
  have ok: "uploadedFiles (st (fire v (Settle i (IngestReply (Resolved True))))) =
      uploadedFiles (st v) @ fs"
    "history (fire v (Settle i (IngestReply (Resolved True)))) =
      SetTimeout 3000 # Reply (Ingest fs) (IngestReply (Resolved True)) # history v"
    using assms(3) by (simp_all add: st_emit history_emit handleFileUpload_settled_def)
  have names: "map name (uploadedFiles (st (fire v (Settle i (IngestReply (Resolved True)))))) =
      map name (uploadedFiles (st v)) @ map name fs"
    "length (uploadedFiles (st (fire v (Settle i (IngestReply (Resolved True)))))) =
      length (uploadedFiles (st v)) + length fs"
    unfolding ok(1) by simp_all
  have rej: "uploadedFiles (st (fire v (Settle i (IngestReply Rejected)))) = uploadedFiles (st v)"
    "history (fire v (Settle i (IngestReply Rejected))) =
      Alert (js ''Error uploading files. Make sure the backend is running.'') #
      ConsoleError (js ''Upload error:'') #
      Reply (Ingest fs) (IngestReply Rejected) # history v"
    using assms(3) by (simp_all add: st_emit history_emit handleFileUpload_settled_def)
  have unsuccessful:
    "uploadedFiles (st (fire v (Settle i (IngestReply (Resolved False))))) = uploadedFiles (st v)"
    "history (fire v (Settle i (IngestReply (Resolved False)))) =
      Reply (Ingest fs) (IngestReply (Resolved False)) # history v"
    using assms(3) by (simp_all add: st_emit history_emit handleFileUpload_settled_def)
  from noop call seq seq_ok en up ok names rej unsuccessful show ?thesis
    by blast
qed

theorem upload_end_to_end_witness:
  "[sample_file] \<noteq> [] \<and> 0 < length (pending uploading) \<and>
   pending uploading ! 0 = Ingest [sample_file] \<and>
   run init_world [SelectFiles (Some [sample_file]), Settle 0 (IngestReply (Resolved True))] =
     Some (fire uploading (Settle 0 (IngestReply (Resolved True)))) \<and>
   uploadedFiles (st (fire uploading (Settle 0 (IngestReply (Resolved True))))) = [sample_file] \<and>
   \<not> isUploading (st (fire uploading (Settle 0 (IngestReply (Resolved True))))) \<and>
   uploadedFiles (st (fire uploading (Settle 0 (IngestReply Rejected)))) = [] \<and>
   hd (history (fire uploading (Settle 0 (IngestReply Rejected)))) =
     Alert (js ''Error uploading files. Make sure the backend is running.'')"
proof -
  have a: "[sample_file] \<noteq> []" by simp
  have p: "pending (init_world :: real world) = []" "uploadedFiles (st (init_world :: real world)) = []"
    by (simp_all add: init_world_def init_state_def)
  have b: "0 < length (pending uploading)" and c: "pending uploading ! 0 = Ingest [sample_file]"
    and u: "uploadedFiles (st uploading) = []"
    by (simp_all add: uploading_def evaluation)
  note t = upload_end_to_end [OF a b c, of "init_world :: real world"]
  have r: "run init_world [SelectFiles (Some [sample_file]), Settle 0 (IngestReply (Resolved True))] =
     Some (fire uploading (Settle 0 (IngestReply (Resolved True))))"
    using t [of "Resolved True"] p unfolding uploading_def by simp
  have "uploadedFiles (st (fire uploading (Settle 0 (IngestReply (Resolved True))))) = [sample_file]"
    and "\<not> isUploading (st (fire uploading (Settle 0 (IngestReply (Resolved True)))))"
    and "uploadedFiles (st (fire uploading (Settle 0 (IngestReply Rejected)))) = []"
    and "hd (history (fire uploading (Settle 0 (IngestReply Rejected)))) =
     Alert (js ''Error uploading files. Make sure the backend is running.'')"
    using t [of "Resolved True"] u by simp_all
  with a b c r show ?thesis by blast
qed

end
